theory Spec2Isabelle
  imports Main "HOL-Library.Sublist"
begin

section \<open>JavaScript values and primitives used by the decoders\<close>

text \<open>
  The numeric slots of the program hold integers, \<open>NaN\<close>, \<open>null\<close> or \<open>undefined\<close>.
  Every number the program computes comes from \<open>parseInt\<close>, from an integer literal or
  from adding or subtracting such values, so a number is modelled as an unbounded
  \<open>int\<close>; the model is exact for magnitudes below \<open>2^53\<close>, where a JavaScript
  double represents every integer. Strings are ASCII texts.
\<close>

datatype jsnum = Undefined | Null | NaN | Num int

text \<open>White space that \<open>parseInt\<close> strips from the front of its argument (ASCII part).\<close>

definition isWhiteSpace :: "char \<Rightarrow> bool" where
  "isWhiteSpace c = (c \<in> set [CHR 0x09, CHR 0x0A, CHR 0x0B, CHR 0x0C, CHR 0x0D, CHR 0x20])"

definition digitValue :: "char \<Rightarrow> nat option" where
  "digitValue c = map_of
     [(CHR ''0'', 0), (CHR ''1'', 1), (CHR ''2'', 2), (CHR ''3'', 3), (CHR ''4'', 4),
      (CHR ''5'', 5), (CHR ''6'', 6), (CHR ''7'', 7), (CHR ''8'', 8), (CHR ''9'', 9),
      (CHR ''a'', 10), (CHR ''b'', 11), (CHR ''c'', 12), (CHR ''d'', 13), (CHR ''e'', 14),
      (CHR ''f'', 15), (CHR ''A'', 10), (CHR ''B'', 11), (CHR ''C'', 12), (CHR ''D'', 13),
      (CHR ''E'', 14), (CHR ''F'', 15)] c"

definition radixDigit :: "nat \<Rightarrow> char \<Rightarrow> bool" where
  "radixDigit R c = (case digitValue c of None \<Rightarrow> False | Some v \<Rightarrow> v < R)"

definition digitNat :: "char \<Rightarrow> nat" where
  "digitNat c = (case digitValue c of None \<Rightarrow> 0 | Some v \<Rightarrow> v)"

text \<open>
  \<open>parseInt(string)\<close> with no radix argument: strip leading white space, read an optional
  sign, switch to radix 16 after a \<open>0x\<close> or \<open>0X\<close> prefix, read the longest run of digits
  and return \<open>NaN\<close> when that run is empty.
\<close>

definition parseInt :: "string \<Rightarrow> jsnum" where
  "parseInt inputString =
     (let S = dropWhile isWhiteSpace inputString;
          sign = (if take 1 S = ''-'' then - 1 else 1);
          S1 = (if take 1 S = ''+'' \<or> take 1 S = ''-'' then drop 1 S else S);
          hex = (take 2 S1 = ''0x'' \<or> take 2 S1 = ''0X'');
          R = (if hex then 16 else 10);
          S2 = (if hex then drop 2 S1 else S1);
          Z = takeWhile (radixDigit R) S2
      in if Z = [] then NaN
         else Num (sign * int (foldl (\<lambda>acc c. acc * R + digitNat c) 0 Z)))"

text \<open>\<open>ToString\<close> of an attribute value: \<open>getAttribute\<close> returns \<open>null\<close> for a missing attribute.\<close>

definition stringOfAttr :: "string option \<Rightarrow> string" where
  "stringOfAttr a = (case a of None \<Rightarrow> ''null'' | Some s \<Rightarrow> s)"

text \<open>\<open>ToString\<close> of a label that may be \<open>undefined\<close>.\<close>

definition stringOfLabel :: "string option \<Rightarrow> string" where
  "stringOfLabel a = (case a of None \<Rightarrow> ''undefined'' | Some s \<Rightarrow> s)"

text \<open>\<open>v || d\<close> for a number \<open>v\<close> and a numeric default: \<open>NaN\<close> and \<open>0\<close> are falsy.\<close>

definition orNum :: "jsnum \<Rightarrow> int \<Rightarrow> int" where
  "orNum v d = (case v of Num n \<Rightarrow> if n = 0 then d else n | _ \<Rightarrow> d)"

text \<open>\<open>v || null\<close>.\<close>

definition orNull :: "jsnum \<Rightarrow> jsnum" where
  "orNull v = (case v of Num n \<Rightarrow> if n = 0 then Null else Num n | _ \<Rightarrow> Null)"

text \<open>\<open>s || d\<close> for a string \<open>s\<close> that may be missing: the empty string is falsy.\<close>

definition orStr :: "string option \<Rightarrow> string \<Rightarrow> string" where
  "orStr s d = (case s of None \<Rightarrow> d | Some t \<Rightarrow> if t = [] then d else t)"

definition truthyStr :: "string option \<Rightarrow> bool" where
  "truthyStr s = (case s of None \<Rightarrow> False | Some t \<Rightarrow> t \<noteq> [])"

text \<open>\<open>v ?? d\<close>: only \<open>null\<close> and \<open>undefined\<close> give way to the default.\<close>

definition nullish :: "jsnum \<Rightarrow> jsnum \<Rightarrow> jsnum" where
  "nullish v d = (case v of Undefined \<Rightarrow> d | Null \<Rightarrow> d | _ \<Rightarrow> v)"

text \<open>\<open>a !== b\<close> is \<open>\<not> strictEq a b\<close>; \<open>NaN\<close> is not equal to itself.\<close>

definition strictEq :: "jsnum \<Rightarrow> jsnum \<Rightarrow> bool" where
  "strictEq a b = (a = b \<and> a \<noteq> NaN)"

text \<open>\<open>a - b\<close>: \<open>null\<close> counts as 0, \<open>undefined\<close> as \<open>NaN\<close>.\<close>

definition toNumber :: "jsnum \<Rightarrow> jsnum" where
  "toNumber v = (case v of Undefined \<Rightarrow> NaN | Null \<Rightarrow> Num 0 | _ \<Rightarrow> v)"

definition jsSub :: "jsnum \<Rightarrow> jsnum \<Rightarrow> jsnum" where
  "jsSub a b = (case (toNumber a, toNumber b) of (Num x, Num y) \<Rightarrow> Num (x - y) | _ \<Rightarrow> NaN)"

definition isNaN :: "jsnum \<Rightarrow> bool" where
  "isNaN v = (toNumber v = NaN)"

text \<open>
  \<open>Number.isSafeInteger(n)\<close>: the integers of magnitude at most \<open>2^53 - 1\<close>. A digit
  string with such a value is parsed exactly by \<open>parseInt\<close>; beyond that range JavaScript
  rounds to the nearest double, which the \<open>int\<close> of the model does not do.
\<close>

definition isSafeInteger :: "int \<Rightarrow> bool" where
  "isSafeInteger n = (\<bar>n\<bar> \<le> 2 ^ 53 - 1)"

text \<open>The decimal digits of an integer, with a minus sign for a negative one.\<close>

fun digits :: "nat \<Rightarrow> string" where
  "digits n = (if n < 10 then [char_of (48 + n)]
               else digits (n div 10) @ [char_of (48 + n mod 10)])"

declare digits.simps [simp del]

definition decimalString :: "int \<Rightarrow> string" where
  "decimalString n = (if n < 0 then ''-'' @ digits (nat (- n)) else digits (nat n))"

text \<open>
  \<open>String(n)\<close> and \<open>`${n}`\<close>: for a safe integer the result is its decimal digits.
  From \<open>2^53\<close> on JavaScript prints the shortest digits that round to the double, and
  exponent form from \<open>10^21\<close>; the model leaves the string unspecified there, so no
  statement can be made about it outside the safe range.
\<close>

definition numberToString :: "int \<Rightarrow> string" where
  "numberToString n = (if isSafeInteger n then decimalString n else undefined)"

text \<open>\<open>array[i]\<close> for an integer index: \<open>undefined\<close> outside the array, also below 0.\<close>

definition arrayGet :: "'a list \<Rightarrow> int \<Rightarrow> 'a option" where
  "arrayGet xs i = (if 0 \<le> i \<and> i < int (length xs) then Some (xs ! nat i) else None)"

text \<open>
  \<open>Array.prototype.sort(comparefn)\<close> is a stable sort; a comparator result of \<open>NaN\<close>
  counts as 0. It is modelled as a stable insertion sort: an element moves past
  exactly the elements that the comparator places strictly before it. For a comparator
  that is consistent on the elements of the array every conforming engine returns this
  list; for an inconsistent one the language leaves the order to the engine.
\<close>

definition sortCompare :: "('a \<Rightarrow> 'a \<Rightarrow> jsnum) \<Rightarrow> 'a \<Rightarrow> 'a \<Rightarrow> int" where
  "sortCompare comparefn x y = (case comparefn x y of Num v \<Rightarrow> v | _ \<Rightarrow> 0)"

fun insertSorted :: "('a \<Rightarrow> 'a \<Rightarrow> jsnum) \<Rightarrow> 'a \<Rightarrow> 'a list \<Rightarrow> 'a list" where
  "insertSorted comparefn x [] = [x]"
| "insertSorted comparefn x (y # ys) =
     (if sortCompare comparefn x y > 0 then y # insertSorted comparefn x ys else x # y # ys)"

definition sortBy :: "('a \<Rightarrow> 'a \<Rightarrow> jsnum) \<Rightarrow> 'a list \<Rightarrow> 'a list" where
  "sortBy comparefn xs = foldr (insertSorted comparefn) xs []"

section \<open>enums.js\<close>

datatype N2kDirection = NONE | TRANSMIT | RECEIVE

fun N2kDirection_name :: "N2kDirection \<Rightarrow> string" where
  "N2kDirection_name NONE = ''''"
| "N2kDirection_name TRANSMIT = ''transmit''"
| "N2kDirection_name RECEIVE = ''receive''"

fun N2kDirection_id :: "N2kDirection \<Rightarrow> int" where
  "N2kDirection_id NONE = - 1"
| "N2kDirection_id TRANSMIT = 0"
| "N2kDirection_id RECEIVE = 1"

definition N2kDirection_fromId :: "jsnum \<Rightarrow> N2kDirection" where
  "N2kDirection_fromId v =
     (case v of Num n \<Rightarrow> if n = 0 then TRANSMIT else if n = 1 then RECEIVE else NONE
              | _ \<Rightarrow> NONE)"

section \<open>channel-decoder.js\<close>

text \<open>
  An entry of a settings table has a \<open>type\<close> and either a fixed \<open>subtype\<close> or a
  \<open>subtypeMap\<close>; the table is the list of pairs the \<open>Map\<close> is built from (its keys are
  distinct).
\<close>

record config =
  ctype :: string
  csubtype :: "string option"
  subtypeMap :: "(int \<times> string) list option"

record settings =
  type :: string
  subtype :: string

definition INPUT_MAIN_SETTINGS :: "(int \<times> config) list" where
  "INPUT_MAIN_SETTINGS =
     [(1, \<lparr>ctype = ''digital input'', csubtype = Some ''standard'', subtypeMap = None\<rparr>),
      (57, \<lparr>ctype = ''digital input'', csubtype = None, subtypeMap = Some
         [(1, ''closes to minus''),
          (2, ''closes to plus''),
          (4, ''closes to common''),
          (6, ''closes to plus weak pulldown''),
          (7, ''measure input frequency'')]\<rparr>),
      (64, \<lparr>ctype = ''analog input'', csubtype = None, subtypeMap = Some
         [(1, ''voltage signal''),
          (2, ''4-20 mA''),
          (4, ''0-1500 Ohm''),
          (5, ''multiswitch''),
          (6, ''firealarm (constant power)''),
          (7, ''multiswitch (68Ohm +/- 1%)''),
          (8, ''dual fixed multiswitch''),
          (9, ''temp sensor ohm'')]\<rparr>),
      (54, \<lparr>ctype = ''window wiper feedback'', csubtype = None, subtypeMap = Some
         [(1, ''closes to minus in parking''),
          (2, ''open in parking'')]\<rparr>)]"

definition OUTPUT_MAIN_SETTINGS :: "(int \<times> config) list" where
  "OUTPUT_MAIN_SETTINGS =
     [(1, \<lparr>ctype = ''digital output'', csubtype = Some ''standard'', subtypeMap = None\<rparr>),
      (48, \<lparr>ctype = ''digital output +'', csubtype = None, subtypeMap = Some
         [(1, ''normal''),
          (2, ''open load detection''),
          (3, ''open load detection at turn on'')]\<rparr>),
      (49, \<lparr>ctype = ''digital output -'', csubtype = None, subtypeMap = Some
         [(1, ''normal'')]\<rparr>),
      (52, \<lparr>ctype = ''commonline'', csubtype = None, subtypeMap = Some
         [(0, ''normal'')]\<rparr>),
      (53, \<lparr>ctype = ''half bridge output +/-'', csubtype = None, subtypeMap = Some
         [(0, ''normal half bridge'')]\<rparr>),
      (55, \<lparr>ctype = ''window wiper'', csubtype = None, subtypeMap = Some
         [(1, ''connection #1 with diode''),
          (2, ''connection #1 no diode''),
          (3, ''connection #2 with diode''),
          (4, ''connection #2 no diode'')]\<rparr>),
      (65, \<lparr>ctype = ''signal drive (max 50mA)'', csubtype = None, subtypeMap = Some
         [(0, ''positive drive''),
          (1, ''negative drive'')]\<rparr>)]"

text \<open>\<open>config.subtypeMap?.get(subId)\<close>.\<close>

definition subtypeMapGet :: "config \<Rightarrow> int \<Rightarrow> string option" where
  "subtypeMapGet c subId = (case subtypeMap c of None \<Rightarrow> None | Some m \<Rightarrow> map_of m subId)"

definition decodeInputSettings :: "int \<Rightarrow> int \<Rightarrow> settings" where
  "decodeInputSettings mainId subId =
     (case map_of INPUT_MAIN_SETTINGS mainId of
        None \<Rightarrow> \<lparr>type = '':unknown:'' @ numberToString mainId,
                 subtype = '':unknown:'' @ numberToString subId\<rparr>
      | Some c \<Rightarrow>
          if truthyStr (csubtype c)
          then \<lparr>type = ctype c, subtype = orStr (csubtype c) ''''\<rparr>
          else \<lparr>type = ctype c,
                subtype = orStr (subtypeMapGet c subId)
                            ('':unknown:'' @ numberToString subId)\<rparr>)"

definition decodeOutputSettings :: "int \<Rightarrow> int \<Rightarrow> settings" where
  "decodeOutputSettings mainId subId =
     (if mainId = - 1 then \<lparr>type = '':unknown:'', subtype = '':unknown:''\<rparr>
      else case map_of OUTPUT_MAIN_SETTINGS mainId of
             None \<Rightarrow> \<lparr>type = '':unknown:'' @ numberToString mainId,
                      subtype = '':unknown:'' @ numberToString subId\<rparr>
           | Some c \<Rightarrow>
               if truthyStr (csubtype c)
               then \<lparr>type = ctype c, subtype = orStr (csubtype c) ''''\<rparr>
               else \<lparr>type = ctype c,
                     subtype = orStr (subtypeMapGet c subId)
                                 ('':unknown:'' @ numberToString subId)\<rparr>)"

text \<open>A channel as \<open>parseChannels\<close> builds it: every field is a string.\<close>

record channel =
  number :: string
  channelName :: string
  channelDirection :: string
  inMainChannelSettingId :: string
  inChannelSettingId :: string
  outMainChannelSettingId :: string
  outChannelSettingId :: string

record decodedChannel =
  input' :: settings
  output' :: settings

definition decodeChannelSettings :: "channel \<Rightarrow> decodedChannel" where
  "decodeChannelSettings ch =
     (let mainInId = orNum (parseInt (inMainChannelSettingId ch)) 0;
          subInId = orNum (parseInt (inChannelSettingId ch)) 0;
          mainOutId = orNum (parseInt (outMainChannelSettingId ch)) (- 1);
          subOutId = orNum (parseInt (outChannelSettingId ch)) (- 1)
      in \<lparr>input' = decodeInputSettings mainInId subInId,
          output' = decodeOutputSettings mainOutId subOutId\<rparr>)"

section \<open>component-decoder.js\<close>

text \<open>A property as \<open>parseProperties\<close> builds it: \<open>{id, value}\<close>.\<close>

record property =
  propId :: int
  propValue :: string

text \<open>
  The result of a decoder. \<open>instance'\<close> and \<open>device\<close> are a number or \<open>null\<close>;
  \<open>pgn\<close> and the label \<open>id'\<close> are \<open>undefined\<close> (\<open>Undefined\<close>, \<open>None\<close>) when
  a table is read at a negative index.
\<close>

record decoded =
  name :: string
  pgn :: jsnum
  instance' :: jsnum
  id' :: "string option"
  direction :: N2kDirection
  device :: jsnum

record component =
  componentId :: jsnum
  channelId :: jsnum
  unitId :: jsnum

definition FLUID_TYPES :: "string list" where
  "FLUID_TYPES =
     [''fuel'', ''fresh water'', ''waste water'', ''live well'', ''oil'', ''black water'']"

definition TEMPERATURE_SOURCES :: "string list" where
  "TEMPERATURE_SOURCES =
     [''sea'', ''outside'', ''inside'', ''engine room'', ''main cabin'', ''live well'',
      ''bait well'', ''refridgeration'', ''heating system'', ''dew point'',
      ''wind chill apparent'', ''wind chill theoretical'', ''heat index'', ''freezer'']"

definition J1939_PGNS :: "int list" where
  "J1939_PGNS =
     [65014, 65027, 65011, 65008,
      65024, 65021, 65017, 65030,
      65004, 65003, 65002, 65001]"

text \<open>The \<open>Map\<close> of property id to parsed value; a later property overwrites an earlier one.\<close>

definition createPropertyMap :: "property list \<Rightarrow> (int \<rightharpoonup> jsnum)" where
  "createPropertyMap properties =
     foldl (\<lambda>m prop. let v = parseInt (propValue prop)
                      in m(propId prop \<mapsto> (if isNaN v then Null else v)))
           Map.empty properties"

text \<open>\<open>map.get(id)\<close>: \<open>undefined\<close> for a missing key.\<close>

definition mapGet :: "(int \<rightharpoonup> jsnum) \<Rightarrow> int \<Rightarrow> jsnum" where
  "mapGet m k = (case m k of None \<Rightarrow> Undefined | Some v \<Rightarrow> v)"

definition getProperty :: "(int \<rightharpoonup> jsnum) \<Rightarrow> int \<Rightarrow> jsnum" where
  "getProperty props k = nullish (mapGet props k) Null"

definition createEmptyResult :: decoded where
  "createEmptyResult =
     \<lparr>name = '''', pgn = Num 0, instance' = Null, id' = Some '''',
      direction = NONE, device = Null\<rparr>"

text \<open>\<open>v !== null && v < table.length ? table[v] : 'unknown'\<close>.\<close>

definition tableName :: "string list \<Rightarrow> jsnum \<Rightarrow> string option" where
  "tableName table v =
     (case v of Num n \<Rightarrow> if n < int (length table) then arrayGet table n else Some ''unknown''
              | _ \<Rightarrow> Some ''unknown'')"

text \<open>\<open>v !== null ? String(v + 1) : ''\<close>.\<close>

definition numberLabel :: "jsnum \<Rightarrow> string option" where
  "numberLabel v =
     (case v of Null \<Rightarrow> Some '''' | Num n \<Rightarrow> Some (numberToString (n + 1))
              | _ \<Rightarrow> Some ''NaN'')"

definition decodeFluidLevel :: "(int \<rightharpoonup> jsnum) \<Rightarrow> decoded" where
  "decodeFluidLevel props =
     (let fluidType = getProperty props 1;
          fluidName = tableName FLUID_TYPES fluidType
      in \<lparr>name = ''Fluid Level'', pgn = Num 127505, instance' = getProperty props 0,
          id' = fluidName, direction = N2kDirection_fromId (getProperty props 2),
          device = Null\<rparr>)"

definition decodeBinarySwitch :: "(int \<rightharpoonup> jsnum) \<Rightarrow> decoded" where
  "decodeBinarySwitch props =
     (let switchNumber = getProperty props 1
      in \<lparr>name = ''Binary Switch'', pgn = Num 127501, instance' = getProperty props 0,
          id' = numberLabel switchNumber,
          direction = N2kDirection_fromId (getProperty props 5), device = Null\<rparr>)"

definition decodeBinaryIndicator :: "(int \<rightharpoonup> jsnum) \<Rightarrow> decoded" where
  "decodeBinaryIndicator props =
     (let indicatorNumber = getProperty props 1
      in \<lparr>name = ''Binary Indicator'', pgn = Num 127501, instance' = getProperty props 0,
          id' = numberLabel indicatorNumber,
          direction = N2kDirection_fromId (getProperty props 2), device = Null\<rparr>)"

definition decodeTemperature :: "(int \<rightharpoonup> jsnum) \<Rightarrow> decoded" where
  "decodeTemperature props =
     (let sourceType = getProperty props 1;
          sourceName = tableName TEMPERATURE_SOURCES sourceType
      in \<lparr>name = ''Temperature'', pgn = Num 130312, instance' = getProperty props 0,
          id' = sourceName, direction = N2kDirection_fromId (getProperty props 5),
          device = Null\<rparr>)"

definition decodeSwitchControl :: "(int \<rightharpoonup> jsnum) \<Rightarrow> decoded" where
  "decodeSwitchControl props =
     (let switchNumber = getProperty props 2
      in \<lparr>name = ''Switch Control'', pgn = Num 127502, instance' = getProperty props 1,
          id' = numberLabel switchNumber,
          direction = N2kDirection_fromId (getProperty props 0), device = Null\<rparr>)"

definition decodeJ1939AcPgn :: "(int \<rightharpoonup> jsnum) \<Rightarrow> decoded" where
  "decodeJ1939AcPgn props =
     (let pgnType = getProperty props 1;
          pgnValue = (case pgnType of
                        Num n \<Rightarrow> if n < int (length J1939_PGNS)
                                 then (case arrayGet J1939_PGNS n of
                                         None \<Rightarrow> Undefined | Some p \<Rightarrow> Num p)
                                 else Num 0
                      | _ \<Rightarrow> Num 0)
      in \<lparr>name = ''J1939 AC PGN'', pgn = pgnValue, instance' = Null, id' = Some '''',
          direction = NONE, device = getProperty props 0\<rparr>)"

definition decodeProprietaryPgn :: "(int \<rightharpoonup> jsnum) \<Rightarrow> decoded" where
  "decodeProprietaryPgn props =
     \<lparr>name = ''Proprietary PGN'', pgn = Num 65280, instance' = getProperty props 2,
      id' = Some '''', direction = N2kDirection_fromId (getProperty props 0),
      device = Null\<rparr>"

definition COMPONENT_DECODERS :: "(int \<times> ((int \<rightharpoonup> jsnum) \<Rightarrow> decoded)) list" where
  "COMPONENT_DECODERS =
     [(1283, decodeFluidLevel),
      (1281, decodeBinarySwitch),
      (1282, decodeBinaryIndicator),
      (1285, decodeTemperature),
      (1291, decodeSwitchControl),
      (1376, decodeJ1939AcPgn),
      (1361, decodeProprietaryPgn)]"

text \<open>\<open>COMPONENT_DECODERS.get(component.componentId)\<close>: only a number can be a key.\<close>

definition decoderFor :: "jsnum \<Rightarrow> ((int \<rightharpoonup> jsnum) \<Rightarrow> decoded) option" where
  "decoderFor cid = (case cid of Num n \<Rightarrow> map_of COMPONENT_DECODERS n | _ \<Rightarrow> None)"

definition decodeComponent :: "component \<Rightarrow> property list \<Rightarrow> decoded" where
  "decodeComponent component properties =
     (case decoderFor (componentId component) of
        None \<Rightarrow> createEmptyResult
      | Some decoder \<Rightarrow> decoder (createPropertyMap properties))"

section \<open>The parsed document\<close>

text \<open>
  \<open>DOMParser.parseFromString(xmlString, 'text/xml')\<close> is the browser's; the functions of
  parser.js only walk the element tree it returns, so the model starts from that tree,
  given by its root element. Elements carry a tag name, their attributes and their
  child elements in document order (text nodes play no part). Names carry no namespace
  prefix, so \<open>tagName\<close> and the type selectors of \<open>querySelector\<close> agree. For
  malformed text the browser returns a tree that contains a \<open>parsererror\<close> element.
  Calls of \<open>console.log\<close> are left out.
\<close>

datatype xml = Element (tagName: string) (attributes: "(string \<times> string) list")
  (children: "xml list")

definition getAttribute :: "xml \<Rightarrow> string \<Rightarrow> string option" where
  "getAttribute el a = map_of (attributes el) a"

text \<open>Every descendant of an element, in document order, paired with its parent.\<close>

fun childPairs :: "xml \<Rightarrow> (xml \<times> xml) list" where
  "childPairs (Element t a cs) =
     concat (map (\<lambda>c. (Element t a cs, c) # childPairs c) cs)"

definition descendants :: "xml \<Rightarrow> xml list" where
  "descendants el = map snd (childPairs el)"

text \<open>\<open>element.getElementsByTagName(tag)\<close>: the descendants with that tag.\<close>

definition getElementsByTagName :: "xml \<Rightarrow> string \<Rightarrow> xml list" where
  "getElementsByTagName el tag = filter (\<lambda>e. tagName e = tag) (descendants el)"

text \<open>
  \<open>xmlDoc.getElementsByTagName(tag)\<close> and \<open>xmlDoc.querySelectorAll(tag)\<close> on the
  document: the root element is a candidate too.
\<close>

definition docElementsByTagName :: "xml \<Rightarrow> string \<Rightarrow> xml list" where
  "docElementsByTagName xmlDoc tag = filter (\<lambda>e. tagName e = tag) (xmlDoc # descendants xmlDoc)"

text \<open>\<open>xmlDoc.querySelector(tag)\<close>: the first element with that tag, or \<open>null\<close>.\<close>

definition querySelector :: "xml \<Rightarrow> string \<Rightarrow> xml option" where
  "querySelector xmlDoc tag = find (\<lambda>e. tagName e = tag) (xmlDoc # descendants xmlDoc)"

text \<open>
  \<open>querySelectorAll('parent > child')\<close>, on the document or on an element: the
  descendants with tag \<open>child\<close> whose parent element has tag \<open>parent\<close>.
\<close>

definition querySelectorAllChild :: "xml \<Rightarrow> string \<Rightarrow> string \<Rightarrow> xml list" where
  "querySelectorAllChild el parent child =
     map snd (filter (\<lambda>(p, e). tagName p = parent \<and> tagName e = child) (childPairs el))"

section \<open>parser.js\<close>

datatype error = Error string

record channelGroup =
  groupId :: string
  channels :: "channel list"

record unitData =
  unit_id :: string
  serial :: string
  unit_name :: string
  unitTypeId :: string
  standardUnitVariantNumber :: string
  unit_channels :: "channelGroup list"

definition parseChannels :: "xml \<Rightarrow> channelGroup list" where
  "parseChannels unitElement =
     map (\<lambda>group.
            \<lparr>groupId = orStr (getAttribute group ''channelGroupId'') ''N/A'',
             channels =
               map (\<lambda>ch.
                      \<lparr>number = orStr (getAttribute ch ''number'') ''N/A'',
                       channelName = orStr (getAttribute ch ''name'') ''N/A'',
                       channelDirection = orStr (getAttribute ch ''direction'') ''N/A'',
                       inMainChannelSettingId =
                         orStr (getAttribute ch ''inMainChannelSettingId'') '''',
                       inChannelSettingId =
                         orStr (getAttribute ch ''inChannelSettingId'') '''',
                       outMainChannelSettingId =
                         orStr (getAttribute ch ''outMainChannelSettingId'') '''',
                       outChannelSettingId =
                         orStr (getAttribute ch ''outChannelSettingId'') ''''\<rparr>)
                   (getElementsByTagName group ''channel'')\<rparr>)
         (getElementsByTagName unitElement ''unitChannelGroup'')"

text \<open>\<open>Array.from(unitsContainer.children).filter(el => el.tagName === 'unit')\<close>.\<close>

definition unitChildren :: "xml \<Rightarrow> xml list" where
  "unitChildren unitsContainer = filter (\<lambda>el. tagName el = ''unit'') (children unitsContainer)"

text \<open>A \<open>throw new Error(message)\<close> is the result \<open>Inl (Error message)\<close>.\<close>

definition parseUnits :: "xml \<Rightarrow> error + unitData list" where
  "parseUnits xmlDoc =
     (if querySelector xmlDoc ''parsererror'' \<noteq> None then Inl (Error ''Invalid XML format'')
      else case querySelector xmlDoc ''units'' of
             None \<Rightarrow> Inl (Error ''No units container found in the EBP file'')
           | Some unitsContainer \<Rightarrow>
               (let unitElements = unitChildren unitsContainer;
                    units =
                      map (\<lambda>u.
                             \<lparr>unit_id = orStr (getAttribute u ''id'') ''N/A'',
                              serial = orStr (getAttribute u ''serial'') ''N/A'',
                              unit_name = orStr (getAttribute u ''name'') ''N/A'',
                              unitTypeId = orStr (getAttribute u ''unitTypeId'') ''N/A'',
                              standardUnitVariantNumber =
                                orStr (getAttribute u ''standardUnitVariantNumber'') ''N/A'',
                              unit_channels = parseChannels u\<rparr>)
                          unitElements
                in if length units = 0 then Inl (Error ''No units found in the EBP file'')
                   else Inr units))"

record validation =
  isValid :: bool
  errors :: "string list"

text \<open>
  No DOM call in the \<open>try\<close> block throws, so the \<open>catch\<close> branch is never taken and
  the function always returns a result.
\<close>

definition validateEBP :: "xml \<Rightarrow> validation" where
  "validateEBP xmlDoc =
     (if querySelector xmlDoc ''parsererror'' \<noteq> None
      then \<lparr>isValid = False, errors = [''Invalid XML format'']\<rparr>
      else
        (let errors1 = (if querySelector xmlDoc ''project'' = None
                        then [''Missing project root element''] else []);
             errors2 = (if querySelector xmlDoc ''units'' = None
                        then errors1 @ [''Missing units element''] else errors1);
             unitElements = docElementsByTagName xmlDoc ''unit'';
             errors3 = (if length unitElements = 0
                        then errors2 @ [''No units found in file''] else errors2)
         in \<lparr>isValid = (length errors3 = 0), errors = errors3\<rparr>))"

text \<open>The callback of \<open>parseProperties\<close>: the record pushed for one \<open>property\<close> element.\<close>

definition propertyOf :: "xml \<Rightarrow> property" where
  "propertyOf prop =
     \<lparr>propId = orNum (parseInt (stringOfAttr (getAttribute prop ''id''))) (- 1),
      propValue = orStr (getAttribute prop ''value'') ''''\<rparr>"

definition parseProperties :: "xml \<Rightarrow> property list" where
  "parseProperties element =
     map propertyOf (querySelectorAllChild element ''properties'' ''property'')"

text \<open>The loop of \<open>findMasterModuleBusId\<close> over the unit elements; it returns at the first match.\<close>

fun scanUnits :: "xml list \<Rightarrow> int" where
  "scanUnits [] = - 1"
| "scanUnits (u # rest) =
     (let unitTypeId = orNum (parseInt (stringOfAttr (getAttribute u ''unitTypeId''))) 0
      in if unitTypeId = 101 \<or> unitTypeId = 100
         then orNum (parseInt (stringOfAttr (getAttribute u ''id''))) (- 1)
         else if unitTypeId \<in> set [20, 1, 16, 4] \<and>
                 list_ex (\<lambda>prop. propId prop = 2 \<and> propValue prop = ''2'') (parseProperties u)
         then orNum (parseInt (stringOfAttr (getAttribute u ''id''))) (- 1)
         else scanUnits rest)"

definition findMasterModuleBusId :: "xml \<Rightarrow> int" where
  "findMasterModuleBusId xmlDoc = scanUnits (querySelectorAllChild xmlDoc ''units'' ''unit'')"

text \<open>A row of the component table that \<open>parseComponents\<close> returns.\<close>

record componentRow =
  row_name :: string
  row_pgn :: jsnum
  row_device :: jsnum
  row_instance :: jsnum
  row_id :: "string option"
  row_direction :: string
  tabName :: string

text \<open>
  The comparator of \<open>parseComponents\<close>. \<open>String.prototype.localeCompare\<close> is the
  platform's collation and is a parameter.
\<close>

definition compareComponents ::
  "(string \<Rightarrow> string \<Rightarrow> int) \<Rightarrow> componentRow \<Rightarrow> componentRow \<Rightarrow> jsnum" where
  "compareComponents localeCompare a b =
     (if \<not> strictEq (row_pgn a) (row_pgn b) then jsSub (row_pgn a) (row_pgn b)
      else if \<not> strictEq (row_device a) (row_device b)
      then jsSub (row_device a) (row_device b)
      else if \<not> strictEq (row_instance a) (row_instance b)
      then jsSub (nullish (row_instance a) (Num 0)) (nullish (row_instance b) (Num 0))
      else
        (let aId = parseInt (stringOfLabel (row_id a));
             bId = parseInt (stringOfLabel (row_id b))
         in if \<not> isNaN aId \<and> \<not> isNaN bId then jsSub aId bId
            else Num (localeCompare (stringOfLabel (row_id a)) (stringOfLabel (row_id b)))))"

text \<open>The body of the loop over the component elements of one schema.\<close>

definition componentRowOf :: "int \<Rightarrow> string \<Rightarrow> xml \<Rightarrow> componentRow option" where
  "componentRowOf masterModuleBusId tab componentNode =
     (let cid = parseInt (stringOfAttr (getAttribute componentNode ''componentId''))
      in if cid = Num 1292 \<or> cid = Num 2304 then None
         else
           (let component =
                  \<lparr>componentId = cid,
                   channelId =
                     orNull (parseInt (stringOfAttr (getAttribute componentNode ''channelId''))),
                   unitId =
                     orNull (parseInt (stringOfAttr (getAttribute componentNode ''unitId'')))\<rparr>;
                properties = parseProperties componentNode;
                dec = decodeComponent component properties
            in if name dec \<noteq> []
               then Some \<lparr>row_name = name dec,
                          row_pgn = pgn dec,
                          row_device = nullish (device dec) (Num masterModuleBusId),
                          row_instance = instance' dec,
                          row_id = id' dec,
                          row_direction = N2kDirection_name (direction dec),
                          tabName = tab\<rparr>
               else None))"

definition parseComponents :: "(string \<Rightarrow> string \<Rightarrow> int) \<Rightarrow> xml \<Rightarrow> componentRow list" where
  "parseComponents localeCompare xmlDoc =
     (let masterModuleBusId = findMasterModuleBusId xmlDoc;
          schemaElements = docElementsByTagName xmlDoc ''schema'';
          components =
            concat (map (\<lambda>schema.
                           List.map_filter
                             (componentRowOf masterModuleBusId
                                (orStr (getAttribute schema ''name'') ''''))
                             (querySelectorAllChild schema ''components'' ''component''))
                        schemaElements)
      in sortBy (compareComponents localeCompare) components)"

record memoryType =
  typeName :: string
  typeBits :: int

record memory =
  mtype :: string
  location :: jsnum
  bits :: int

definition MEMORY_TYPES :: "(int \<times> memoryType) list" where
  "MEMORY_TYPES =
     [(0, \<lparr>typeName = ''Bit (1 Bit)'', typeBits = 1\<rparr>),
      (1, \<lparr>typeName = ''UByte (8 Bit)'', typeBits = 8\<rparr>),
      (2, \<lparr>typeName = ''UWord (16 Bit)'', typeBits = 16\<rparr>),
      (3, \<lparr>typeName = ''UDWord (32 Bit)'', typeBits = 32\<rparr>)]"

text \<open>\<open>MEMORY_TYPES.get(memType) || { name: 'unknown', bits: 1 }\<close>.\<close>

definition memoryTypeOf :: "jsnum \<Rightarrow> memoryType" where
  "memoryTypeOf memType =
     (case memType of
        Num n \<Rightarrow> (case map_of MEMORY_TYPES n of
                    None \<Rightarrow> \<lparr>typeName = ''unknown'', typeBits = 1\<rparr> | Some t \<Rightarrow> t)
      | _ \<Rightarrow> \<lparr>typeName = ''unknown'', typeBits = 1\<rparr>)"

text \<open>The \<open>propertyMap\<close> that \<open>parseMemory\<close> builds for one component.\<close>

definition memoryPropertyMap :: "property list \<Rightarrow> (int \<rightharpoonup> jsnum)" where
  "memoryPropertyMap properties =
     foldl (\<lambda>m prop. m(propId prop \<mapsto> orNull (parseInt (propValue prop))))
           Map.empty properties"

text \<open>The body of the loop of \<open>parseMemory\<close> over the component elements.\<close>

definition memoryOf :: "xml \<Rightarrow> memory option" where
  "memoryOf componentNode =
     (let cid = parseInt (stringOfAttr (getAttribute componentNode ''componentId''))
      in if cid = Num 2304
         then
           (let properties = parseProperties componentNode;
                propertyMap = memoryPropertyMap properties;
                memType = mapGet propertyMap 0;
                memLocation = mapGet propertyMap 1;
                t = memoryTypeOf memType
            in Some \<lparr>mtype = typeName t, location = memLocation, bits = typeBits t\<rparr>)
         else None)"

definition parseMemory :: "xml \<Rightarrow> memory list" where
  "parseMemory xmlDoc =
     sortBy (\<lambda>a b. jsSub (location a) (location b))
       (List.map_filter memoryOf (docElementsByTagName xmlDoc ''component''))"

section \<open>Example inputs\<close>

text \<open>A channel element without any setting attribute, as \<open>parseChannels\<close> records it.\<close>

definition unsetChannel :: channel where
  "unsetChannel =
     \<lparr>number = ''1'', channelName = ''N/A'', channelDirection = ''N/A'',
      inMainChannelSettingId = '''', inChannelSettingId = '''',
      outMainChannelSettingId = '''', outChannelSettingId = ''''\<rparr>"

text \<open>A channel whose out-main attribute is the text \<open>0\<close>.\<close>

definition zeroOutChannel :: channel where
  "zeroOutChannel =
     \<lparr>number = ''1'', channelName = ''N/A'', channelDirection = ''N/A'',
      inMainChannelSettingId = ''57'', inChannelSettingId = ''2'',
      outMainChannelSettingId = ''0'', outChannelSettingId = ''1''\<rparr>"



text \<open>
  \<^verbatim>\<open><project><component componentId="2304"><properties>\<close>
  \<^verbatim>\<open><property id="0" value="1"/><property id="1" value="100"/>\<close>
  \<^verbatim>\<open></properties></component></project>\<close>
\<close>

definition memoryDocument :: xml where
  "memoryDocument =
     Element ''project'' []
       [Element ''component'' [(''componentId'', ''2304'')]
          [Element ''properties'' []
             [Element ''property'' [(''id'', ''0''), (''value'', ''1'')] [],
              Element ''property'' [(''id'', ''1''), (''value'', ''100'')] []]]]"

text \<open>\<^verbatim>\<open><project><units/></project>\<close>\<close>

definition emptyUnitsDocument :: xml where
  "emptyUnitsDocument = Element ''project'' [] [Element ''units'' [] []]"

text \<open>\<^verbatim>\<open><project><units><group><unit id="1"/></group></units></project>\<close>\<close>

definition nestedUnitsContainer :: xml where
  "nestedUnitsContainer =
     Element ''units'' [] [Element ''group'' [] [Element ''unit'' [(''id'', ''1'')] []]]"

definition nestedUnitDocument :: xml where
  "nestedUnitDocument = Element ''project'' [] [nestedUnitsContainer]"

text \<open>\<^verbatim>\<open><project><units><unit id="0" unitTypeId="101"/></units></project>\<close>\<close>

definition masterZeroDocument :: xml where
  "masterZeroDocument =
     Element ''project'' []
       [Element ''units'' [] [Element ''unit'' [(''id'', ''0''), (''unitTypeId'', ''101'')] []]]"

text \<open>
  Two Switch Control components (type 1291) in one schema. The first has no property 1
  (no instance) and property 2 = 1 (label \<open>2\<close>); the second has property 1 = 0
  (instance 0) and property 2 = 0 (label \<open>1\<close>).
\<close>

definition switchControlDocument :: xml where
  "switchControlDocument =
     Element ''project'' []
       [Element ''schemas'' []
          [Element ''schema'' [(''name'', ''Tab'')]
             [Element ''components'' []
                [Element ''component'' [(''componentId'', ''1291'')]
                   [Element ''properties'' []
                      [Element ''property'' [(''id'', ''2''), (''value'', ''1'')] []]],
                 Element ''component'' [(''componentId'', ''1291'')]
                   [Element ''properties'' []
                      [Element ''property'' [(''id'', ''1''), (''value'', ''0'')] [],
                       Element ''property'' [(''id'', ''2''), (''value'', ''0'')] []]]]]]]"

text \<open>
  A \<open>property\<close> element with id 0, one with id 1, and the component that carries both.
\<close>

definition zeroIdProperty :: xml where
  "zeroIdProperty = Element ''property'' [(''id'', ''0''), (''value'', ''2'')] []"

definition oneIdProperty :: xml where
  "oneIdProperty = Element ''property'' [(''id'', ''1''), (''value'', ''1'')] []"

definition zeroIdComponent :: xml where
  "zeroIdComponent =
     Element ''component'' [(''componentId'', ''1283'')]
       [Element ''properties'' [] [zeroIdProperty, oneIdProperty]]"

text \<open>The two rows that \<open>parseComponents\<close> builds from \<open>switchControlDocument\<close>.\<close>

definition absentInstanceRow :: componentRow where
  "absentInstanceRow =
     \<lparr>row_name = ''Switch Control'', row_pgn = Num 127502, row_device = Num (- 1),
      row_instance = Null, row_id = Some ''2'', row_direction = '''', tabName = ''Tab''\<rparr>"

definition zeroInstanceRow :: componentRow where
  "zeroInstanceRow =
     \<lparr>row_name = ''Switch Control'', row_pgn = Num 127502, row_device = Num (- 1),
      row_instance = Num 0, row_id = Some ''1'', row_direction = '''', tabName = ''Tab''\<rparr>"

section \<open>The stated rules, for comparison with the code\<close>

text \<open>
  The component order as the specification words it: by PGN, then device with absent as
  0, then instance with absent as 0, then label (numeric when both labels parse as
  integers, else by string comparison).
\<close>

definition absentAsZero :: "jsnum \<Rightarrow> jsnum" where
  "absentAsZero v = nullish v (Num 0)"

definition specCompareComponents ::
  "(string \<Rightarrow> string \<Rightarrow> int) \<Rightarrow> componentRow \<Rightarrow> componentRow \<Rightarrow> jsnum" where
  "specCompareComponents localeCompare a b =
     (if row_pgn a \<noteq> row_pgn b then jsSub (row_pgn a) (row_pgn b)
      else if absentAsZero (row_device a) \<noteq> absentAsZero (row_device b)
      then jsSub (absentAsZero (row_device a)) (absentAsZero (row_device b))
      else if absentAsZero (row_instance a) \<noteq> absentAsZero (row_instance b)
      then jsSub (absentAsZero (row_instance a)) (absentAsZero (row_instance b))
      else
        (let aId = parseInt (stringOfLabel (row_id a));
             bId = parseInt (stringOfLabel (row_id b))
         in if \<not> isNaN aId \<and> \<not> isNaN bId then jsSub aId bId
            else Num (localeCompare (stringOfLabel (row_id a)) (stringOfLabel (row_id b)))))"


text \<open>
  The two rules of master-device resolution as the specification words them: unit-type
  code 101 or 100, or unit-type code in {20, 1, 16, 4} together with a property of id 2
  and raw value \<open>"2"\<close>.
\<close>

definition qualifiesAsMaster :: "xml \<Rightarrow> bool" where
  "qualifiesAsMaster u =
     (let unitTypeId = orNum (parseInt (stringOfAttr (getAttribute u ''unitTypeId''))) 0
      in unitTypeId = 101 \<or> unitTypeId = 100 \<or>
         (unitTypeId \<in> set [20, 1, 16, 4] \<and>
          list_ex (\<lambda>prop. propId prop = 2 \<and> propValue prop = ''2'') (parseProperties u)))"

section \<open>Auxiliary facts\<close>

lemma orNum_NaN [simp]: "orNum NaN d = d"
  by (simp add: orNum_def)

lemma orNum_zero [simp]: "orNum (Num 0) d = d"
  by (simp add: orNum_def)

lemma parseInt_empty [simp]: "parseInt [] = NaN"
  by (simp add: parseInt_def)




lemma orNum_nonzero: "d \<noteq> 0 \<Longrightarrow> orNum v d \<noteq> 0"
  by (cases v) (simp_all add: orNum_def)

lemma propId_propertyOf_nonzero: "propId (propertyOf prop) \<noteq> 0"
  by (simp add: propertyOf_def orNum_nonzero)

lemma propId_parseProperties_nonzero:
  "p \<in> set (parseProperties element) \<Longrightarrow> propId p \<noteq> 0"
  by (auto simp: parseProperties_def propId_propertyOf_nonzero)

text \<open>A key that no property carries is still unset after the \<open>forEach\<close> that fills a \<open>Map\<close>.\<close>

lemma foldl_update_other:
  "\<forall>p \<in> set ps. key p \<noteq> k \<Longrightarrow> foldl (\<lambda>m p. m(key p \<mapsto> val p)) m0 ps k = m0 k"
  by (induction ps arbitrary: m0) auto

lemma createPropertyMap_absent:
  assumes "\<forall>p \<in> set ps. propId p \<noteq> k"
  shows "createPropertyMap ps k = None"
proof -
  have "createPropertyMap ps =
      foldl (\<lambda>m p. m(propId p \<mapsto> (if isNaN (parseInt (propValue p)) then Null
                                     else parseInt (propValue p)))) Map.empty ps"
    by (simp add: createPropertyMap_def Let_def)
  moreover have
    "foldl (\<lambda>m p. m(propId p \<mapsto> (if isNaN (parseInt (propValue p)) then Null
                                    else parseInt (propValue p)))) Map.empty ps k
       = Map.empty k"
    by (rule foldl_update_other [OF assms])
  ultimately show ?thesis by simp
qed

lemma memoryPropertyMap_absent:
  assumes "\<forall>p \<in> set ps. propId p \<noteq> k"
  shows "memoryPropertyMap ps k = None"
proof -
  have "foldl (\<lambda>m p. m(propId p \<mapsto> orNull (parseInt (propValue p)))) Map.empty ps k
          = Map.empty k"
    by (rule foldl_update_other [OF assms])
  then show ?thesis by (simp add: memoryPropertyMap_def)
qed

lemma set_insertSorted: "set (insertSorted f x xs) = insert x (set xs)"
  by (induction xs) auto

lemma set_sortBy: "set (sortBy f xs) = set xs"
  by (induction xs) (simp_all add: sortBy_def set_insertSorted)

text \<open>
  Property 0 never reaches \<open>parseMemory\<close>'s map, so every memory entry it returns has
  the default type.
\<close>

lemma memoryOf_unknown:
  assumes "memoryOf componentNode = Some m"
  shows "mtype m = ''unknown'' \<and> bits m = 1"
proof -
  have "memoryPropertyMap (parseProperties componentNode) 0 = None"
    by (rule memoryPropertyMap_absent) (simp add: propId_parseProperties_nonzero)
  then have "memoryTypeOf (mapGet (memoryPropertyMap (parseProperties componentNode)) 0)
               = \<lparr>typeName = ''unknown'', typeBits = 1\<rparr>"
    by (simp add: mapGet_def memoryTypeOf_def)
  with assms show ?thesis
    by (auto simp: memoryOf_def Let_def split: if_splits)
qed

lemma parseMemory_always_unknown:
  assumes "m \<in> set (parseMemory xmlDoc)"
  shows "mtype m = ''unknown'' \<and> bits m = 1"
proof -
  from assms obtain n where "memoryOf n = Some m"
    by (auto simp: parseMemory_def set_sortBy List.map_filter_def)
  then show ?thesis by (rule memoryOf_unknown)
qed

text \<open>
  The scan returns at the first unit that qualifies under either rule, and -1 when no
  unit qualifies; the value returned at a match is \<open>parseInt(id) || -1\<close>.
\<close>

lemma scanUnits_first_match:
  "scanUnits us =
     (case find qualifiesAsMaster us of
        None \<Rightarrow> - 1
      | Some u \<Rightarrow> orNum (parseInt (stringOfAttr (getAttribute u ''id''))) (- 1))"
  by (induction us) (auto simp: qualifiesAsMaster_def Let_def)

section \<open>Channel settings decoder\<close>




text \<open>
  C2, as stated, fails: the pair decoded for out-main code -1 is not
  \<open>{type: "unknown:", subtype: "unknown:"}\<close>.
\<close>

theorem C2_counterexample:
  "decodeOutputSettings (- 1) (- 1) \<noteq> \<lparr>type = ''unknown:'', subtype = ''unknown:''\<rparr>"
  by code_simp

text \<open>
  C2 (amended): an out-main code of exactly -1 decodes, before any table lookup and
  whatever the sub code, to the pair \<open>{type: ":unknown:", subtype: ":unknown:"}\<close> with
  no code suffix; a channel whose out-main code is -1 gets that pair as its output side,
  and a channel whose \<open>outMainChannelSettingId\<close> attribute is absent (recorded as the
  empty string) has out-main code -1.
\<close>

theorem C2_no_output_sentinel:
  "decodeOutputSettings (- 1) subId = \<lparr>type = '':unknown:'', subtype = '':unknown:''\<rparr> \<and>
   (orNum (parseInt (outMainChannelSettingId ch)) (- 1) = - 1 \<longrightarrow>
      output' (decodeChannelSettings ch) =
        \<lparr>type = '':unknown:'', subtype = '':unknown:''\<rparr>) \<and>
   (outMainChannelSettingId ch = '''' \<longrightarrow>
      orNum (parseInt (outMainChannelSettingId ch)) (- 1) = - 1)"
  by (simp add: decodeOutputSettings_def decodeChannelSettings_def Let_def)

text \<open>Witness for C2: the channel without setting attributes.\<close>

theorem C2_no_output_sentinel_witness:
  "outMainChannelSettingId unsetChannel = '''' \<and>
   orNum (parseInt (outMainChannelSettingId unsetChannel)) (- 1) = - 1 \<and>
   output' (decodeChannelSettings unsetChannel) =
     \<lparr>type = '':unknown:'', subtype = '':unknown:''\<rparr>"
proof -
  have e: "outMainChannelSettingId unsetChannel = ''''"
    by (simp add: unsetChannel_def)
  from C2_no_output_sentinel [of 0 unsetChannel] e show ?thesis by simp
qed

text \<open>
  C10: when the \<open>outMainChannelSettingId\<close> text parses to the integer 0, the out-main
  code becomes -1, the output side is the one decoded for the same channel with the
  attribute absent, and it is the no-output sentinel pair.
\<close>

theorem C10_zero_out_main_is_unset:
  assumes "parseInt (outMainChannelSettingId ch) = Num 0"
  shows "orNum (parseInt (outMainChannelSettingId ch)) (- 1) = - 1 \<and>
    output' (decodeChannelSettings ch) =
      output' (decodeChannelSettings (ch\<lparr>outMainChannelSettingId := ''''\<rparr>)) \<and>
    output' (decodeChannelSettings ch) = decodeOutputSettings (- 1) (- 1) \<and>
    output' (decodeChannelSettings ch) = \<lparr>type = '':unknown:'', subtype = '':unknown:''\<rparr>"
  using assms by (simp add: decodeOutputSettings_def decodeChannelSettings_def Let_def)

text \<open>Witness for C10: the channel whose out-main attribute is the text \<open>0\<close>.\<close>

theorem C10_zero_out_main_is_unset_witness:
  "parseInt (outMainChannelSettingId zeroOutChannel) = Num 0 \<and>
   orNum (parseInt (outMainChannelSettingId zeroOutChannel)) (- 1) = - 1 \<and>
   output' (decodeChannelSettings zeroOutChannel) =
     output' (decodeChannelSettings (zeroOutChannel\<lparr>outMainChannelSettingId := ''''\<rparr>)) \<and>
   output' (decodeChannelSettings zeroOutChannel) =
     \<lparr>type = '':unknown:'', subtype = '':unknown:''\<rparr>"
proof -
  have z: "parseInt (outMainChannelSettingId zeroOutChannel) = Num 0"
    by code_simp
  from C10_zero_out_main_is_unset [OF z] z show ?thesis by blast
qed

section \<open>Component decoder\<close>

text \<open>
  C3: for a component-type code without a registered decoder, and any property list,
  \<open>decodeComponent\<close> returns the empty record: name \<open>""\<close>, pgn 0, no instance, label
  \<open>""\<close>, direction NONE, no device.
\<close>

theorem C3_unregistered_type_is_empty:
  assumes "componentId component \<notin> Num ` fst ` set COMPONENT_DECODERS"
  shows "decodeComponent component properties =
     \<lparr>name = '''', pgn = Num 0, instance' = Null, id' = Some '''',
      direction = NONE, device = Null\<rparr>"
proof -
  have "decoderFor (componentId component) = None"
  proof (cases "componentId component")
    case (Num n)
    with assms have "n \<notin> fst ` set COMPONENT_DECODERS" by auto
    then have "map_of COMPONENT_DECODERS n = None" by (simp add: map_of_eq_None_iff)
    with Num show ?thesis by (simp add: decoderFor_def)
  qed (simp_all add: decoderFor_def)
  then show ?thesis by (simp add: decodeComponent_def createEmptyResult_def)
qed

text \<open>Witness for C3: type code 9999 with one property.\<close>

theorem C3_unregistered_type_is_empty_witness:
  "Num 9999 \<notin> Num ` fst ` set COMPONENT_DECODERS \<and>
   decodeComponent \<lparr>componentId = Num 9999, channelId = Null, unitId = Null\<rparr>
       [\<lparr>propId = 0, propValue = ''2''\<rparr>] =
     \<lparr>name = '''', pgn = Num 0, instance' = Null, id' = Some '''',
      direction = NONE, device = Null\<rparr>"
proof -
  have h: "componentId \<lparr>componentId = Num 9999, channelId = Null, unitId = Null\<rparr>
             \<notin> Num ` fst ` set COMPONENT_DECODERS"
    by (auto simp: COMPONENT_DECODERS_def)
  from C3_unregistered_type_is_empty [OF h] h show ?thesis by simp
qed

text \<open>
  C7: a component of type code 1283 with the properties 0 = "2", 1 = "1", 2 = "0"
  decodes to name Fluid Level, pgn 127505, instance 2, label fresh water, direction
  TRANSMIT (and no device).
\<close>

theorem C7_fluid_level_example:
  "decodeComponent \<lparr>componentId = Num 1283, channelId = c, unitId = u\<rparr>
       [\<lparr>propId = 0, propValue = ''2''\<rparr>, \<lparr>propId = 1, propValue = ''1''\<rparr>,
        \<lparr>propId = 2, propValue = ''0''\<rparr>] =
     \<lparr>name = ''Fluid Level'', pgn = Num 127505, instance' = Num 2,
      id' = Some ''fresh water'', direction = TRANSMIT, device = Null\<rparr>"
  by code_simp

text \<open>
  C9: \<open>parseProperties\<close> records one property for every \<open>property\<close> element under a
  \<open>properties\<close> element of its argument, in document order, with the value attribute
  (or the empty string) as value; an element whose id attribute parses to 0 or does
  not parse is recorded with id -1, and any other with the integer parsed. So no
  property that \<open>parseProperties\<close> returns has id 0, the property map of the component
  decoder has no entry for id 0, a decoder that reads property 0 gets \<open>null\<close>, and
  \<open>parseMemory\<close> reads \<open>undefined\<close> for property 0.
\<close>

theorem C9_property_zero_unreachable:
  "length (parseProperties element) =
     length (querySelectorAllChild element ''properties'' ''property'') \<and>
   (\<forall>i < length (querySelectorAllChild element ''properties'' ''property'').
      propValue (parseProperties element ! i) =
        orStr (getAttribute (querySelectorAllChild element ''properties'' ''property'' ! i)
                 ''value'') '''' \<and>
      (parseInt (stringOfAttr (getAttribute
           (querySelectorAllChild element ''properties'' ''property'' ! i) ''id''))
         \<in> {Num 0, NaN} \<longrightarrow>
       propId (parseProperties element ! i) = - 1) \<and>
      (\<forall>n. parseInt (stringOfAttr (getAttribute
           (querySelectorAllChild element ''properties'' ''property'' ! i) ''id'')) = Num n \<and>
           n \<noteq> 0 \<longrightarrow>
       propId (parseProperties element ! i) = n)) \<and>
   (\<forall>p \<in> set (parseProperties element). propId p \<noteq> 0) \<and>
   createPropertyMap (parseProperties element) 0 = None \<and>
   getProperty (createPropertyMap (parseProperties element)) 0 = Null \<and>
   mapGet (memoryPropertyMap (parseProperties element)) 0 = Undefined"
proof -
  have nz: "\<forall>p \<in> set (parseProperties element). propId p \<noteq> 0"
    by (simp add: propId_parseProperties_nonzero)
  have len: "length (parseProperties element) =
     length (querySelectorAllChild element ''properties'' ''property'')"
    by (simp add: parseProperties_def)
  have rec: "\<forall>i < length (querySelectorAllChild element ''properties'' ''property'').
      propValue (parseProperties element ! i) =
        orStr (getAttribute (querySelectorAllChild element ''properties'' ''property'' ! i)
                 ''value'') '''' \<and>
      (parseInt (stringOfAttr (getAttribute
           (querySelectorAllChild element ''properties'' ''property'' ! i) ''id''))
         \<in> {Num 0, NaN} \<longrightarrow>
       propId (parseProperties element ! i) = - 1) \<and>
      (\<forall>n. parseInt (stringOfAttr (getAttribute
           (querySelectorAllChild element ''properties'' ''property'' ! i) ''id'')) = Num n \<and>
           n \<noteq> 0 \<longrightarrow>
       propId (parseProperties element ! i) = n)"
    by (auto simp: parseProperties_def propertyOf_def orNum_def)
  have b: "createPropertyMap (parseProperties element) 0 = None"
    using createPropertyMap_absent [OF nz] .
  have c: "memoryPropertyMap (parseProperties element) 0 = None"
    using memoryPropertyMap_absent [OF nz] .
  from len rec nz b c show ?thesis
    by (simp add: getProperty_def mapGet_def nullish_def)
qed

text \<open>
  Witness for C9: a component of type 1283 with the property elements id \<open>0\<close>, value
  \<open>2\<close> and id \<open>1\<close>, value \<open>1\<close>.
\<close>

theorem C9_property_zero_unreachable_witness:
  "querySelectorAllChild zeroIdComponent ''properties'' ''property'' =
     [zeroIdProperty, oneIdProperty] \<and>
   parseInt (stringOfAttr (getAttribute zeroIdProperty ''id'')) = Num 0 \<and>
   parseInt (stringOfAttr (getAttribute oneIdProperty ''id'')) = Num 1 \<and>
   length (parseProperties zeroIdComponent) = 2 \<and>
   propId (parseProperties zeroIdComponent ! 0) = - 1 \<and>
   propValue (parseProperties zeroIdComponent ! 0) = ''2'' \<and>
   propId (parseProperties zeroIdComponent ! 1) = 1 \<and>
   propValue (parseProperties zeroIdComponent ! 1) = ''1'' \<and>
   createPropertyMap (parseProperties zeroIdComponent) 0 = None \<and>
   getProperty (createPropertyMap (parseProperties zeroIdComponent)) 0 = Null \<and>
   mapGet (memoryPropertyMap (parseProperties zeroIdComponent)) 0 = Undefined"
proof -
  have q: "querySelectorAllChild zeroIdComponent ''properties'' ''property'' =
     [zeroIdProperty, oneIdProperty]"
    by code_simp
  have h0: "parseInt (stringOfAttr (getAttribute zeroIdProperty ''id'')) = Num 0"
    by code_simp
  have h1: "parseInt (stringOfAttr (getAttribute oneIdProperty ''id'')) = Num 1"
    by code_simp
  have v0: "orStr (getAttribute zeroIdProperty ''value'') '''' = ''2''"
    by code_simp
  have v1: "orStr (getAttribute oneIdProperty ''value'') '''' = ''1''"
    by code_simp
  note t = C9_property_zero_unreachable [of zeroIdComponent]
  from t q have len: "length (parseProperties zeroIdComponent) = 2"
    by simp
  from t q have i0:
    "propValue (parseProperties zeroIdComponent ! 0) =
       orStr (getAttribute zeroIdProperty ''value'') '''' \<and>
     (parseInt (stringOfAttr (getAttribute zeroIdProperty ''id'')) \<in> {Num 0, NaN} \<longrightarrow>
        propId (parseProperties zeroIdComponent ! 0) = - 1)"
    by simp
  from t q have i1:
    "propValue (parseProperties zeroIdComponent ! 1) =
       orStr (getAttribute oneIdProperty ''value'') '''' \<and>
     (\<forall>n. parseInt (stringOfAttr (getAttribute oneIdProperty ''id'')) = Num n \<and> n \<noteq> 0 \<longrightarrow>
        propId (parseProperties zeroIdComponent ! 1) = n)"
    by simp
  from i0 h0 v0 have r0: "propId (parseProperties zeroIdComponent ! 0) = - 1"
    "propValue (parseProperties zeroIdComponent ! 0) = ''2''"
    by simp_all
  from i1 h1 v1 have r1: "propId (parseProperties zeroIdComponent ! 1) = 1"
    "propValue (parseProperties zeroIdComponent ! 1) = ''1''"
    by simp_all
  from t have rest: "createPropertyMap (parseProperties zeroIdComponent) 0 = None \<and>
    getProperty (createPropertyMap (parseProperties zeroIdComponent)) 0 = Null \<and>
    mapGet (memoryPropertyMap (parseProperties zeroIdComponent)) 0 = Undefined"
    by simp
  from q h0 h1 len r0 r1 rest show ?thesis by blast
qed

section \<open>Document extractor\<close>

text \<open>
  C4: on a memory component (type 2304) whose property 0 is 1, the claim promises the
  table entry for code 1 (8 bits); \<open>parseMemory\<close> returns the default type
  \<open>unknown\<close> with 1 bit.
\<close>

theorem C4_memory_type_code_one:
  "parseMemory memoryDocument = [\<lparr>mtype = ''unknown'', location = Num 100, bits = 1\<rparr>]"
  by code_simp

text \<open>
  C5, as stated, fails: the units container of \<open>nestedUnitDocument\<close> has no \<open>unit\<close>
  child and \<open>parseUnits\<close> fails, but \<open>validateEBP\<close> finds the nested \<open>unit\<close> element
  and does not report the violation.
\<close>

theorem C5_counterexample:
  "querySelector nestedUnitDocument ''units'' = Some nestedUnitsContainer \<and>
   unitChildren nestedUnitsContainer = [] \<and>
   parseUnits nestedUnitDocument = Inl (Error ''No units found in the EBP file'') \<and>
   ''No units found in file'' \<notin> set (errors (validateEBP nestedUnitDocument))"
  by code_simp

text \<open>
  C5 (amended): for every document whose units container has zero \<open>unit\<close> children,
  \<open>parseUnits\<close> fails with a structural error (\<open>No units found in the EBP file\<close>, or
  \<open>Invalid XML format\<close> when the tree holds a \<open>parsererror\<close> element); \<open>validateEBP\<close>
  returns a result, and when there is no \<open>parsererror\<close> element that result includes
  \<open>No units found in file\<close> exactly when the document has no \<open>unit\<close> element anywhere.
\<close>

theorem C5_zero_unit_children:
  assumes "querySelector xmlDoc ''units'' = Some unitsContainer"
    and "unitChildren unitsContainer = []"
  shows "parseUnits xmlDoc =
           Inl (Error (if querySelector xmlDoc ''parsererror'' \<noteq> None
                       then ''Invalid XML format''
                       else ''No units found in the EBP file'')) \<and>
    (querySelector xmlDoc ''parsererror'' = None \<longrightarrow>
       (''No units found in file'' \<in> set (errors (validateEBP xmlDoc))
          \<longleftrightarrow> docElementsByTagName xmlDoc ''unit'' = []))"
  using assms by (simp add: parseUnits_def validateEBP_def Let_def)

text \<open>Witness for C5: the document whose units container is empty.\<close>

theorem C5_zero_unit_children_witness:
  "querySelector emptyUnitsDocument ''units'' = Some (Element ''units'' [] []) \<and>
   unitChildren (Element ''units'' [] []) = [] \<and>
   querySelector emptyUnitsDocument ''parsererror'' = None \<and>
   docElementsByTagName emptyUnitsDocument ''unit'' = [] \<and>
   parseUnits emptyUnitsDocument = Inl (Error ''No units found in the EBP file'') \<and>
   ''No units found in file'' \<in> set (errors (validateEBP emptyUnitsDocument))"
proof -
  have h1: "querySelector emptyUnitsDocument ''units'' = Some (Element ''units'' [] [])"
    by code_simp
  have h2: "unitChildren (Element ''units'' [] []) = []"
    by code_simp
  have h3: "querySelector emptyUnitsDocument ''parsererror'' = None"
    by code_simp
  have h4: "docElementsByTagName emptyUnitsDocument ''unit'' = []"
    by code_simp
  from C5_zero_unit_children [OF h1 h2] h1 h2 h3 h4 show ?thesis by simp
qed

text \<open>
  C6: the only unit of \<open>masterZeroDocument\<close> has unit-type code 101 and id 0, so the
  claim promises the result 0; \<open>findMasterModuleBusId\<close> returns -1, the value for
  "none found".
\<close>

theorem C6_master_with_id_zero:
  "findMasterModuleBusId masterZeroDocument = - 1"
  by code_simp

text \<open>
  C8: both rows of \<open>switchControlDocument\<close> have PGN 127502 and device -1; the first
  has no instance and label 2, the second instance 0 and label 1. With an absent
  instance treated as 0 the stated order puts the second row first, by label; the
  comparator of \<open>parseComponents\<close> returns 0 for the pair in both directions without
  looking at the labels, and the rows stay in document order.
\<close>

theorem C8_absent_instance_against_zero:
  "parseComponents localeCompare switchControlDocument = [absentInstanceRow, zeroInstanceRow] \<and>
   compareComponents localeCompare absentInstanceRow zeroInstanceRow = Num 0 \<and>
   compareComponents localeCompare zeroInstanceRow absentInstanceRow = Num 0 \<and>
   specCompareComponents localeCompare absentInstanceRow zeroInstanceRow = Num 1"
  by code_simp

end
